theory Spec2Isabelle
  imports Main
begin

section \<open>Errors\<close>

text \<open>
  Every Go \<^verbatim>\<open>error\<close> value the modelled functions can return, as one datatype.
  The first constructor is the error of \<^verbatim>\<open>extractTokenFromRequest\<close>; the
  \<^verbatim>\<open>ErrToken...\<close> constructors are the errors of the JWT library
  (github.com/golang-jwt/jwt/v5); \<^verbatim>\<open>ErrUnexpectedSigningMethod\<close> is the error of
  the key function of \<^verbatim>\<open>validateToken\<close> (it carries the token's \<^verbatim>\<open>alg\<close> header);
  \<^verbatim>\<open>ErrInvalidTokenFlag\<close> is \<^verbatim>\<open>fmt.Errorf("invalid token")\<close> and
  \<^verbatim>\<open>ErrInvalidToken e\<close> is \<^verbatim>\<open>fmt.Errorf("invalid token: %v", e)\<close>.
\<close>

datatype error =
    ErrNoTokenFound
  | ErrTokenMalformed
  | ErrSigningMethodUnspecified
  | ErrSigningMethodUnavailable
  | ErrUnexpectedSigningMethod "string option"
  | ErrTokenUnverifiable error
  | ErrTokenSignatureInvalid
  | ErrTokenExpired
  | ErrTokenNotValidYet
  | ErrTokenInvalidClaims "error list"
  | ErrInvalidKeyType
  | ErrMarshal
  | ErrInvalidTokenFlag
  | ErrInvalidToken error

section \<open>Strings and HTTP requests\<close>

text \<open>
  \<^verbatim>\<open>strings.Split(s, sep)\<close> for a separator of one byte, which is how both call
  sites use it (\<^verbatim>\<open>" "\<close> in \<^verbatim>\<open>extractTokenFromRequest\<close>, \<^verbatim>\<open>"."\<close> in the JWT parser).
  The result is never empty: splitting the empty string gives one empty part.
\<close>

fun Split :: "string \<Rightarrow> char \<Rightarrow> string list" where
  "Split [] sep = [[]]"
| "Split (c # cs) sep =
     (if c = sep then [] # Split cs sep
      else (case Split cs sep of
              [] \<Rightarrow> [[c]]
            | p # ps \<Rightarrow> (c # p) # ps))"

text \<open>
  The part of \<^verbatim>\<open>*http.Request\<close> the code reads: the method, the header
  (\<^verbatim>\<open>map[string][]string\<close>) and the parsed query of the URL (\<^verbatim>\<open>r.URL.Query()\<close>, a
  \<^verbatim>\<open>url.Values\<close>, again \<^verbatim>\<open>map[string][]string\<close>).
\<close>

record Request =
  Method :: string
  Header :: "string \<rightharpoonup> string list"
  URLQuery :: "string \<rightharpoonup> string list"

text \<open>
  \<^verbatim>\<open>Header.Get\<close> and \<^verbatim>\<open>Values.Get\<close>: the first value stored under the key, the empty
  string when there is none.
\<close>

definition Get :: "(string \<rightharpoonup> string list) \<Rightarrow> string \<Rightarrow> string" where
  "Get m key =
     (case m key of
        None \<Rightarrow> ''''
      | Some [] \<Rightarrow> ''''
      | Some (v # _) \<Rightarrow> v)"

text \<open>
  \<^verbatim>\<open>extractTokenFromRequest\<close> returns the Go pair \<^verbatim>\<open>(string, error)\<close>; the error is
  \<^verbatim>\<open>None\<close> for \<^verbatim>\<open>nil\<close>.
\<close>

definition extractTokenFromRequest :: "Request \<Rightarrow> string \<times> error option" where
  "extractTokenFromRequest r =
     (let authHeader = Get (Header r) ''Authorization'';
          parts = Split authHeader (CHR '' '')
      in if authHeader \<noteq> '''' \<and> length parts = 2 \<and> parts ! 0 = ''Bearer''
         then (parts ! 1, None)
         else (let token = Get (URLQuery r) ''token''
               in if token \<noteq> '''' then (token, None)
                  else ('''', Some ErrNoTokenFound)))"

section \<open>Time\<close>

text \<open>
  A \<^verbatim>\<open>time.Time\<close> is an instant, counted in nanoseconds since the Unix epoch.
  \<^verbatim>\<open>t.Unix()\<close> is the number of whole seconds; \<^verbatim>\<open>jwt.NewNumericDate(t)\<close> truncates
  the instant to the library's precision of one second.
\<close>

type_synonym Time = int

definition Second :: int where
  "Second = 1000000000"

definition Hour :: int where
  "Hour = 3600 * Second"

definition Unix :: "Time \<Rightarrow> int" where
  "Unix t = t div Second"

definition NewNumericDate :: "Time \<Rightarrow> Time" where
  "NewNumericDate t = t - t mod Second"

section \<open>The JWT library\<close>

text \<open>
  \<^verbatim>\<open>Claims\<close> of the source: the guest name and the embedded
  \<^verbatim>\<open>jwt.RegisteredClaims\<close>. An absent date (a \<^verbatim>\<open>nil\<close> pointer) is \<^verbatim>\<open>None\<close>.
\<close>

record Claims =
  GuestName :: string
  Issuer :: string
  Subject :: string
  Audience :: "string list"
  ExpiresAt :: "Time option"
  NotBefore :: "Time option"
  IssuedAt :: "Time option"
  ID :: string

text \<open>
  The signing methods the library registers, by their Go types: the three HMAC methods
  HS256, HS384 and HS512 are the three values of the one type
  \<^verbatim>\<open>*jwt.SigningMethodHMAC\<close>.
\<close>

datatype Hash = SHA256 | SHA384 | SHA512

datatype SigningMethod =
    SigningMethodHMAC Hash
  | SigningMethodRSA Hash
  | SigningMethodRSAPSS Hash
  | SigningMethodECDSA Hash
  | SigningMethodEd25519
  | SigningMethodNone

fun Alg :: "SigningMethod \<Rightarrow> string" where
  "Alg (SigningMethodHMAC SHA256) = ''HS256''"
| "Alg (SigningMethodHMAC SHA384) = ''HS384''"
| "Alg (SigningMethodHMAC SHA512) = ''HS512''"
| "Alg (SigningMethodRSA SHA256) = ''RS256''"
| "Alg (SigningMethodRSA SHA384) = ''RS384''"
| "Alg (SigningMethodRSA SHA512) = ''RS512''"
| "Alg (SigningMethodRSAPSS SHA256) = ''PS256''"
| "Alg (SigningMethodRSAPSS SHA384) = ''PS384''"
| "Alg (SigningMethodRSAPSS SHA512) = ''PS512''"
| "Alg (SigningMethodECDSA SHA256) = ''ES256''"
| "Alg (SigningMethodECDSA SHA384) = ''ES384''"
| "Alg (SigningMethodECDSA SHA512) = ''ES512''"
| "Alg SigningMethodEd25519 = ''EdDSA''"
| "Alg SigningMethodNone = ''none''"

definition GetSigningMethod :: "string \<Rightarrow> SigningMethod option" where
  "GetSigningMethod a =
     (if a = ''HS256'' then Some (SigningMethodHMAC SHA256)
      else if a = ''HS384'' then Some (SigningMethodHMAC SHA384)
      else if a = ''HS512'' then Some (SigningMethodHMAC SHA512)
      else if a = ''RS256'' then Some (SigningMethodRSA SHA256)
      else if a = ''RS384'' then Some (SigningMethodRSA SHA384)
      else if a = ''RS512'' then Some (SigningMethodRSA SHA512)
      else if a = ''PS256'' then Some (SigningMethodRSAPSS SHA256)
      else if a = ''PS384'' then Some (SigningMethodRSAPSS SHA384)
      else if a = ''PS512'' then Some (SigningMethodRSAPSS SHA512)
      else if a = ''ES256'' then Some (SigningMethodECDSA SHA256)
      else if a = ''ES384'' then Some (SigningMethodECDSA SHA384)
      else if a = ''ES512'' then Some (SigningMethodECDSA SHA512)
      else if a = ''EdDSA'' then Some SigningMethodEd25519
      else if a = ''none'' then Some SigningMethodNone
      else None)"

text \<open>
  The JOSE header of a token: the \<^verbatim>\<open>alg\<close> and \<^verbatim>\<open>typ\<close> fields, each present only when
  the header holds a string under that name.
\<close>

record JoseHeader =
  alg :: "string option"
  typeHdr :: "string option"

text \<open>
  What the library does below the level of this model is a parameter: the encoding of
  one segment of a token (JSON, then base64url) and its decoding, and the keyed hash.
  A decoder returns \<^verbatim>\<open>None\<close> where the library reports a malformed token, an encoder
  where \<^verbatim>\<open>json.Marshal\<close> fails. \<^verbatim>\<open>verifyOther\<close> is the signature check of the methods
  other than HMAC, on the signing string, the signature and the key.
\<close>

record jwt_library =
  encodeHeader :: "JoseHeader \<Rightarrow> string option"
  encodeClaims :: "Claims \<Rightarrow> string option"
  EncodeSegment :: "string \<Rightarrow> string"
  decodeHeader :: "string \<Rightarrow> JoseHeader option"
  decodeClaims :: "string \<Rightarrow> Claims option"
  DecodeSegment :: "string \<Rightarrow> string option"
  hmacSum :: "Hash \<Rightarrow> string \<Rightarrow> string \<Rightarrow> string"
  verifyOther :: "SigningMethod \<Rightarrow> string \<Rightarrow> string \<Rightarrow> string \<Rightarrow> bool"

text \<open>
  \<^verbatim>\<open>jwt.Token\<close>; the fields carry a prefix, \<^verbatim>\<open>Method\<close> and \<^verbatim>\<open>Header\<close> being fields
  of the request.
\<close>

record Token =
  tRaw :: string
  tMethod :: SigningMethod
  tHeader :: JoseHeader
  tClaims :: Claims
  tSignature :: string
  tValid :: bool

text \<open>
  \<^verbatim>\<open>Method.Sign\<close> with a key of type \<^verbatim>\<open>[]byte\<close>: the HMAC methods return the keyed
  hash of the signing string, every other method refuses the key's type.
\<close>

definition Sign :: "jwt_library \<Rightarrow> SigningMethod \<Rightarrow> string \<Rightarrow> string \<Rightarrow> error + string" where
  "Sign L m signingString key =
     (case m of
        SigningMethodHMAC h \<Rightarrow> Inr (hmacSum L h key signingString)
      | _ \<Rightarrow> Inl ErrInvalidKeyType)"

text \<open>\<^verbatim>\<open>Method.Verify\<close>: for HMAC, the signature is compared with the keyed hash.\<close>

definition Verify :: "jwt_library \<Rightarrow> SigningMethod \<Rightarrow> string \<Rightarrow> string \<Rightarrow> string \<Rightarrow> bool" where
  "Verify L m signingString sig key =
     (case m of
        SigningMethodHMAC h \<Rightarrow> sig = hmacSum L h key signingString
      | _ \<Rightarrow> verifyOther L m signingString sig key)"

text \<open>\<^verbatim>\<open>jwt.NewWithClaims\<close>: the header names the type and the method's algorithm.\<close>

definition NewWithClaims :: "SigningMethod \<Rightarrow> Claims \<Rightarrow> Token" where
  "NewWithClaims m c =
     \<lparr>tRaw = '''', tMethod = m,
      tHeader = \<lparr>alg = Some (Alg m), typeHdr = Some ''JWT''\<rparr>,
      tClaims = c, tSignature = '''', tValid = False\<rparr>"

text \<open>\<^verbatim>\<open>Token.SigningString\<close>: the encoded header, a dot, the encoded claims.\<close>

definition SigningString :: "jwt_library \<Rightarrow> Token \<Rightarrow> error + string" where
  "SigningString L t =
     (case encodeHeader L (tHeader t) of
        None \<Rightarrow> Inl ErrMarshal
      | Some h \<Rightarrow>
          (case encodeClaims L (tClaims t) of
             None \<Rightarrow> Inl ErrMarshal
           | Some c \<Rightarrow> Inr (h @ ''.'' @ c)))"

text \<open>\<^verbatim>\<open>Token.SignedString\<close>: the signing string, a dot, the encoded signature.\<close>

definition SignedString :: "jwt_library \<Rightarrow> Token \<Rightarrow> string \<Rightarrow> error + string" where
  "SignedString L t key =
     (case SigningString L t of
        Inl e \<Rightarrow> Inl e
      | Inr sstr \<Rightarrow>
          (case Sign L (tMethod t) sstr key of
             Inl e \<Rightarrow> Inl e
           | Inr sig \<Rightarrow> Inr (sstr @ ''.'' @ EncodeSegment L sig)))"

text \<open>
  \<^verbatim>\<open>Parser.ParseUnverified\<close>: three segments between dots, the header and the claims
  decoded, the method looked up from the \<^verbatim>\<open>alg\<close> header. The parts are returned with
  the token.
\<close>

definition ParseUnverified :: "jwt_library \<Rightarrow> string \<Rightarrow> error + (Token \<times> string list)" where
  "ParseUnverified L tokenString =
     (let parts = Split tokenString (CHR ''.'')
      in if length parts \<noteq> 3 then Inl ErrTokenMalformed
         else (case decodeHeader L (parts ! 0) of
                 None \<Rightarrow> Inl ErrTokenMalformed
               | Some header \<Rightarrow>
                   (case decodeClaims L (parts ! 1) of
                      None \<Rightarrow> Inl ErrTokenMalformed
                    | Some claims \<Rightarrow>
                        (case alg header of
                           None \<Rightarrow> Inl ErrSigningMethodUnspecified
                         | Some a \<Rightarrow>
                             (case GetSigningMethod a of
                                None \<Rightarrow> Inl ErrSigningMethodUnavailable
                              | Some m \<Rightarrow>
                                  Inr (\<lparr>tRaw = tokenString, tMethod = m, tHeader = header,
                                        tClaims = claims, tSignature = '''', tValid = False\<rparr>,
                                       parts))))))"

text \<open>
  \<^verbatim>\<open>Validator.Validate\<close> with the default options: the expiry is checked when present
  (the token is valid strictly before it), and so is the not-before date (valid from it
  on); the issue date, the audience, the issuer and the subject are not checked. The
  result lists the errors; the empty list is \<^verbatim>\<open>nil\<close>.
\<close>

definition Validate :: "Time \<Rightarrow> Claims \<Rightarrow> error list" where
  "Validate now c =
     (case ExpiresAt c of
        None \<Rightarrow> []
      | Some e \<Rightarrow> if now < e then [] else [ErrTokenExpired])
     @ (case NotBefore c of
          None \<Rightarrow> []
        | Some n \<Rightarrow> if now < n then [ErrTokenNotValidYet] else [])"

text \<open>
  \<^verbatim>\<open>jwt.ParseWithClaims\<close>: parse, decode the signature, ask the key function for the
  key, verify the signature, validate the claims at the time \<^verbatim>\<open>now\<close> the validator
  reads from the clock, and only then set \<^verbatim>\<open>Valid\<close>.
\<close>

definition ParseWithClaims ::
  "jwt_library \<Rightarrow> Time \<Rightarrow> string \<Rightarrow> (Token \<Rightarrow> error + string) \<Rightarrow> error + Token" where
  "ParseWithClaims L now tokenString keyFunc =
     (case ParseUnverified L tokenString of
        Inl e \<Rightarrow> Inl e
      | Inr (token, parts) \<Rightarrow>
          (case DecodeSegment L (parts ! 2) of
             None \<Rightarrow> Inl ErrTokenMalformed
           | Some sig \<Rightarrow>
               (let signingText = parts ! 0 @ ''.'' @ parts ! 1
                in case keyFunc token of
                     Inl e \<Rightarrow> Inl (ErrTokenUnverifiable e)
                   | Inr key \<Rightarrow>
                       if \<not> Verify L (tMethod token) signingText sig key
                       then Inl ErrTokenSignatureInvalid
                       else (case Validate now (tClaims token) of
                               [] \<Rightarrow> Inr (token\<lparr>tSignature := sig, tValid := True\<rparr>)
                             | e # es \<Rightarrow> Inl (ErrTokenInvalidClaims (e # es))))))"

section \<open>The source: auth.go\<close>

definition jwtSecret :: string where
  "jwtSecret = ''your-secret-key-change-in-production''"

text \<open>
  \<^verbatim>\<open>generateGuestToken\<close>. The two calls of \<^verbatim>\<open>time.Now()\<close> are two readings of the
  clock, \<^verbatim>\<open>now1\<close> for the expiry and \<^verbatim>\<open>now2\<close> for the issue date. The result is the Go
  triple \<^verbatim>\<open>(string, int64, error)\<close>.
\<close>

definition generateGuestToken ::
  "jwt_library \<Rightarrow> Time \<Rightarrow> Time \<Rightarrow> string \<Rightarrow> string \<times> int \<times> error option" where
  "generateGuestToken L now1 now2 guestName =
     (let expirationTime = now1 + 24 * Hour;
          claims = \<lparr>GuestName = guestName, Issuer = '''', Subject = '''', Audience = [],
                    ExpiresAt = Some (NewNumericDate expirationTime), NotBefore = None,
                    IssuedAt = Some (NewNumericDate now2), ID = ''''\<rparr>;
          token = NewWithClaims (SigningMethodHMAC SHA256) claims
      in case SignedString L token jwtSecret of
           Inl err \<Rightarrow> ('''', 0, Some err)
         | Inr tokenString \<Rightarrow> (tokenString, Unix expirationTime, None))"

text \<open>
  The type assertion \<^verbatim>\<open>token.Method.(*jwt.SigningMethodHMAC)\<close>: it holds for the
  methods of the HMAC type, whatever their hash.
\<close>

fun isHMAC :: "SigningMethod \<Rightarrow> bool" where
  "isHMAC (SigningMethodHMAC h) = True"
| "isHMAC m = False"

text \<open>The key function \<^verbatim>\<open>validateToken\<close> passes to the parser.\<close>

definition keyFunc :: "Token \<Rightarrow> error + string" where
  "keyFunc token =
     (if \<not> isHMAC (tMethod token)
      then Inl (ErrUnexpectedSigningMethod (alg (tHeader token)))
      else Inr jwtSecret)"

text \<open>\<^verbatim>\<open>validateToken\<close> returns \<^verbatim>\<open>(nil, err)\<close> or \<^verbatim>\<open>(claims, nil)\<close>.\<close>

definition validateToken :: "jwt_library \<Rightarrow> Time \<Rightarrow> string \<Rightarrow> error + Claims" where
  "validateToken L now tokenString =
     (case ParseWithClaims L now tokenString keyFunc of
        Inl err \<Rightarrow> Inl err
      | Inr token \<Rightarrow>
          if \<not> tValid token then Inl ErrInvalidTokenFlag
          else Inr (tClaims token))"

text \<open>\<^verbatim>\<open>authenticateWebSocket\<close> returns the Go pair \<^verbatim>\<open>(string, error)\<close>.\<close>

definition authenticateWebSocket ::
  "jwt_library \<Rightarrow> Time \<Rightarrow> Request \<Rightarrow> string \<times> error option" where
  "authenticateWebSocket L now r =
     (case extractTokenFromRequest r of
        (tok, Some err) \<Rightarrow> ('''', Some err)
      | (tok, None) \<Rightarrow>
          (case validateToken L now tok of
             Inl err \<Rightarrow> ('''', Some (ErrInvalidToken err))
           | Inr claims \<Rightarrow> (GuestName claims, None)))"

text \<open>
  The response \<^verbatim>\<open>handleGetToken\<close> writes: the status (200 when the handler does not
  set one), the content type and the JSON body, which is a \<^verbatim>\<open>TokenResponse\<close> or an
  \<^verbatim>\<open>ErrorResponse\<close>. The fields of \<^verbatim>\<open>TokenResponse\<close> carry their JSON names, the Go
  names being fields of \<^verbatim>\<open>Claims\<close>.
\<close>

record TokenResponse =
  token :: string
  guest_name :: string
  expires_at :: int

datatype Body = TokenBody TokenResponse | ErrorBody string

record Response =
  status :: nat
  contentType :: string
  body :: Body

text \<open>
  \<^verbatim>\<open>handleGetToken\<close>. \<^verbatim>\<open>randomHexStrings\<close> is defined outside the files at hand: its
  result is the parameter \<^verbatim>\<open>rnd\<close>.
\<close>

definition handleGetToken ::
  "jwt_library \<Rightarrow> string \<Rightarrow> Time \<Rightarrow> Time \<Rightarrow> Request \<Rightarrow> Response" where
  "handleGetToken L rnd now1 now2 r =
     (if Method r \<noteq> ''GET'' \<and> Method r \<noteq> ''POST''
      then \<lparr>status = 405, contentType = ''application/json'',
            body = ErrorBody ''Method not allowed''\<rparr>
      else (let guestName = ''guest-'' @ rnd
            in case generateGuestToken L now1 now2 guestName of
                 (tok, expiresAt, Some err) \<Rightarrow>
                   \<lparr>status = 500, contentType = ''application/json'',
                    body = ErrorBody ''Failed to generate token''\<rparr>
               | (tok, expiresAt, None) \<Rightarrow>
                   \<lparr>status = 200, contentType = ''application/json'',
                    body = TokenBody \<lparr>token = tok, guest_name = guestName,
                                      expires_at = expiresAt\<rparr>\<rparr>))"

section \<open>The Hub\<close>

text \<open>
  Modelled from the spec: the Hub, with its registry and its \<^verbatim>\<open>register\<close> and
  \<^verbatim>\<open>unregister\<close> operations, is not in the source files at hand. The spec (3, 4.4) has
  the registry as the set of the live sessions; \<^verbatim>\<open>register\<close> adds the session;
  \<^verbatim>\<open>unregister\<close> removes the session if present and is a no-op if it was removed
  already.
\<close>

record 's Hub =
  clients :: "'s set"

definition register :: "'s \<Rightarrow> 's Hub \<Rightarrow> 's Hub" where
  \<comment> \<open>Modelled from the spec: adds session to the registry.\<close>
  "register s h = h\<lparr>clients := insert s (clients h)\<rparr>"

definition unregister :: "'s \<Rightarrow> 's Hub \<Rightarrow> 's Hub" where
  \<comment> \<open>Modelled from the spec: removes session if present; no-op if already removed.\<close>
  "unregister s h = (if s \<in> clients h then h\<lparr>clients := clients h - {s}\<rparr> else h)"

section \<open>Issued tokens\<close>

text \<open>Claims with a guest name and the given dates, every other field empty.\<close>

definition claims_of :: "string \<Rightarrow> Time option \<Rightarrow> Time option \<Rightarrow> Claims" where
  "claims_of name exp iat =
     \<lparr>GuestName = name, Issuer = '''', Subject = '''', Audience = [],
      ExpiresAt = exp, NotBefore = None, IssuedAt = iat, ID = ''''\<rparr>"

text \<open>
  The claims \<^verbatim>\<open>generateGuestToken\<close> builds for a guest name and its two readings of
  the clock, and the token it signs.
\<close>

definition issuedClaims :: "string \<Rightarrow> Time \<Rightarrow> Time \<Rightarrow> Claims" where
  "issuedClaims guestName now1 now2 =
     claims_of guestName (Some (NewNumericDate (now1 + 24 * Hour)))
       (Some (NewNumericDate now2))"

definition issuedToken :: "string \<Rightarrow> Time \<Rightarrow> Time \<Rightarrow> Token" where
  "issuedToken guestName now1 now2 =
     NewWithClaims (SigningMethodHMAC SHA256) (issuedClaims guestName now1 now2)"

text \<open>
  The library decodes what it encoded for the token \<^verbatim>\<open>t\<close> signed with \<^verbatim>\<open>key\<close>: where the
  header and the claims of \<^verbatim>\<open>t\<close> are encoded, the segments hold no dot and are decoded
  to that header and those claims, and so is the encoded signature.
\<close>

definition codec_roundtrip :: "jwt_library \<Rightarrow> Token \<Rightarrow> string \<Rightarrow> bool" where
  "codec_roundtrip L t key =
     (case (encodeHeader L (tHeader t), encodeClaims L (tClaims t)) of
        (Some h, Some c) \<Rightarrow>
          decodeHeader L h = Some (tHeader t) \<and> decodeClaims L c = Some (tClaims t) \<and>
          CHR ''.'' \<notin> set h \<and> CHR ''.'' \<notin> set c \<and>
          (case Sign L (tMethod t) (h @ ''.'' @ c) key of
             Inr sig \<Rightarrow>
               DecodeSegment L (EncodeSegment L sig) = Some sig \<and>
               CHR ''.'' \<notin> set (EncodeSegment L sig)
           | Inl e \<Rightarrow> True)
      | _ \<Rightarrow> True)"

section \<open>A test double of the library\<close>

text \<open>
  A small instance of the library's parameter, for running the model on concrete
  requests: a header segment is the bare name of its algorithm, the claims segments are
  the keys of a table of known claims, a signature segment is the signature itself, and
  the keyed hash is a tag for the hash, then the key and the message without their
  dots. Its methods other than HMAC accept every signature.
\<close>

fun hash_tag :: "Hash \<Rightarrow> string" where
  "hash_tag SHA256 = ''s256-''"
| "hash_tag SHA384 = ''s384-''"
| "hash_tag SHA512 = ''s512-''"

definition table_library :: "(string \<times> Claims) list \<Rightarrow> jwt_library" where
  "table_library tbl =
     \<lparr>encodeHeader = (\<lambda>h. alg h),
      encodeClaims = (\<lambda>c. map_of (map (\<lambda>(s, c'). (c', s)) tbl) c),
      EncodeSegment = (\<lambda>s. s),
      decodeHeader = (\<lambda>s. Some \<lparr>alg = Some s, typeHdr = Some ''JWT''\<rparr>),
      decodeClaims = map_of tbl,
      DecodeSegment = Some,
      hmacSum = (\<lambda>h key msg. hash_tag h @ filter (\<lambda>c. c \<noteq> CHR ''.'') (key @ msg)),
      verifyOther = (\<lambda>m s sig key. True)\<rparr>"

text \<open>A request with no header and the given \<^verbatim>\<open>token\<close> query parameter.\<close>

definition query_request :: "string \<Rightarrow> Request" where
  "query_request tok =
     \<lparr>Method = ''GET'', Header = Map.empty, URLQuery = [''token'' \<mapsto> [tok]]\<rparr>"

text \<open>A request with the given \<^verbatim>\<open>Authorization\<close> header and no query parameter.\<close>

definition header_request :: "string \<Rightarrow> Request" where
  "header_request h =
     \<lparr>Method = ''GET'', Header = [''Authorization'' \<mapsto> [h]], URLQuery = Map.empty\<rparr>"

section \<open>Facts about \<^verbatim>\<open>Split\<close>\<close>

lemma Split_not_Nil: "Split s sep \<noteq> []"
  by (induction s) (auto split: list.splits)

lemma Split_no_sep: "sep \<notin> set s \<Longrightarrow> Split s sep = [s]"
  by (induction s) auto

lemma Split_append_sep:
  "sep \<notin> set a \<Longrightarrow> Split (a @ sep # b) sep = a # Split b sep"
  by (induction a) auto

lemma Split_singleton_D: "Split s sep = [a] \<Longrightarrow> s = a \<and> sep \<notin> set a"
proof (induction s arbitrary: a)
  case Nil
  then show ?case by simp
next
  case (Cons c cs)
  show ?case
  proof (cases "c = sep")
    case True
    with Cons.prems show ?thesis by (simp add: Split_not_Nil)
  next
    case False
    obtain p ps where sp: "Split cs sep = p # ps"
      using Split_not_Nil [of cs sep] by (cases "Split cs sep") simp_all
    with Cons.prems False have "a = c # p" "ps = []" by simp_all
    with sp Cons.IH [of p] False show ?thesis by simp
  qed
qed

lemma Split_pair_D:
  "Split s sep = [a, b] \<Longrightarrow> s = a @ sep # b \<and> sep \<notin> set a \<and> sep \<notin> set b"
proof (induction s arbitrary: a)
  case Nil
  then show ?case by simp
next
  case (Cons c cs)
  show ?case
  proof (cases "c = sep")
    case True
    with Cons.prems have "a = []" "Split cs sep = [b]" by simp_all
    with True Split_singleton_D [of cs sep b] show ?thesis by simp
  next
    case False
    obtain p ps where sp: "Split cs sep = p # ps"
      using Split_not_Nil [of cs sep] by (cases "Split cs sep") simp_all
    with Cons.prems False have "a = c # p" "ps = [b]" by simp_all
    with sp Cons.IH [of p] False show ?thesis by simp
  qed
qed

lemma Split_pair_I:
  "sep \<notin> set a \<Longrightarrow> sep \<notin> set b \<Longrightarrow> Split (a @ sep # b) sep = [a, b]"
  by (simp add: Split_append_sep Split_no_sep)

lemma Split_triple_I:
  "sep \<notin> set a \<Longrightarrow> sep \<notin> set b \<Longrightarrow> sep \<notin> set c \<Longrightarrow>
   Split (a @ sep # b @ sep # c) sep = [a, b, c]"
  by (simp add: Split_append_sep Split_no_sep)

text \<open>
  A header value is a two-part bearer header, in the sense of the condition
  \<^verbatim>\<open>len(parts) == 2 && parts[0] == "Bearer"\<close>, exactly when it is \<^verbatim>\<open>Bearer\<close>, one space
  and a token without a space (the token may be empty).
\<close>

lemma bearer_parts_iff:
  "(length (Split h (CHR '' '')) = 2 \<and> Split h (CHR '' '') ! 0 = ''Bearer'') \<longleftrightarrow>
   (\<exists>tok. h = ''Bearer '' @ tok \<and> CHR '' '' \<notin> set tok)"
proof
  assume l: "length (Split h (CHR '' '')) = 2 \<and> Split h (CHR '' '') ! 0 = ''Bearer''"
  then obtain a b where ab: "Split h (CHR '' '') = [a, b]"
    by (cases "Split h (CHR '' '')"; cases "tl (Split h (CHR '' ''))") auto
  with l have "a = ''Bearer''" by simp
  with ab Split_pair_D [of h "CHR '' ''" a b]
  show "\<exists>tok. h = ''Bearer '' @ tok \<and> CHR '' '' \<notin> set tok" by auto
next
  assume "\<exists>tok. h = ''Bearer '' @ tok \<and> CHR '' '' \<notin> set tok"
  then obtain tok where t: "h = ''Bearer '' @ tok" "CHR '' '' \<notin> set tok" by blast
  have "Split (''Bearer'' @ CHR '' '' # tok) (CHR '' '') = [''Bearer'', tok]"
    using t(2) by (intro Split_pair_I) simp_all
  with t(1) show "length (Split h (CHR '' '')) = 2 \<and> Split h (CHR '' '') ! 0 = ''Bearer''"
    by simp
qed

lemma Split_bearer:
  "CHR '' '' \<notin> set tok \<Longrightarrow> Split (''Bearer '' @ tok) (CHR '' '') = [''Bearer'', tok]"
  using Split_pair_I [of "CHR '' ''" "''Bearer''" tok] by simp

section \<open>Facts about the token parser and \<^verbatim>\<open>validateToken\<close>\<close>

lemma GetSigningMethod_Alg: "GetSigningMethod (Alg m) = Some m"
  by (cases m rule: Alg.cases) (simp_all add: GetSigningMethod_def)

lemma isHMAC_iff: "isHMAC m \<longleftrightarrow> (\<exists>h. m = SigningMethodHMAC h)"
  by (cases m) simp_all

lemma Validate_Nil_iff:
  "Validate now c = [] \<longleftrightarrow>
     (case ExpiresAt c of None \<Rightarrow> True | Some e \<Rightarrow> now < e) \<and>
     (case NotBefore c of None \<Rightarrow> True | Some n \<Rightarrow> n \<le> now)"
  by (auto simp add: Validate_def split: option.splits)

lemma ParseWithClaims_Inr_iff:
  "ParseWithClaims L now s keyFunc = Inr tok \<longleftrightarrow>
     (\<exists>t parts h.
        ParseUnverified L s = Inr (t, parts) \<and> tMethod t = SigningMethodHMAC h \<and>
        DecodeSegment L (parts ! 2) = Some (hmacSum L h jwtSecret (parts ! 0 @ ''.'' @ parts ! 1)) \<and>
        Validate now (tClaims t) = [] \<and>
        tok = t\<lparr>tSignature := hmacSum L h jwtSecret (parts ! 0 @ ''.'' @ parts ! 1), tValid := True\<rparr>)"
  by (auto simp add: ParseWithClaims_def keyFunc_def Verify_def Let_def isHMAC_iff
      split: sum.splits option.splits prod.splits list.splits)

lemma validateToken_Inr_iff:
  "validateToken L now s = Inr c \<longleftrightarrow>
     (\<exists>t parts h.
        ParseUnverified L s = Inr (t, parts) \<and> tMethod t = SigningMethodHMAC h \<and>
        DecodeSegment L (parts ! 2) = Some (hmacSum L h jwtSecret (parts ! 0 @ ''.'' @ parts ! 1)) \<and>
        Validate now (tClaims t) = [] \<and> c = tClaims t)"
proof -
  have "validateToken L now s = Inr c \<longleftrightarrow>
          (\<exists>tok. ParseWithClaims L now s keyFunc = Inr tok \<and> tValid tok \<and> c = tClaims tok)"
    by (auto simp add: validateToken_def split: sum.splits)
  then show ?thesis
    unfolding ParseWithClaims_Inr_iff by auto
qed

lemma validateToken_not_Inr: "(\<forall>c. validateToken L now s \<noteq> Inr c) \<Longrightarrow> \<exists>err. validateToken L now s = Inl err"
  by (cases "validateToken L now s") auto

lemma authenticate_cases:
  "authenticateWebSocket L now r =
     (case snd (extractTokenFromRequest r) of
        Some err \<Rightarrow> ('''', Some err)
      | None \<Rightarrow>
          (case validateToken L now (fst (extractTokenFromRequest r)) of
             Inl err \<Rightarrow> ('''', Some (ErrInvalidToken err))
           | Inr claims \<Rightarrow> (GuestName claims, None)))"
  by (cases "extractTokenFromRequest r")
     (simp add: authenticateWebSocket_def split: option.splits)

lemma SignedString_HMAC:
  "SignedString L t key = Inr s \<Longrightarrow> tMethod t = SigningMethodHMAC h \<Longrightarrow>
   \<exists>hs cs. encodeHeader L (tHeader t) = Some hs \<and> encodeClaims L (tClaims t) = Some cs \<and>
     s = hs @ CHR ''.'' # cs @ CHR ''.'' # EncodeSegment L (hmacSum L h key (hs @ ''.'' @ cs))"
  by (auto simp add: SignedString_def SigningString_def Sign_def split: option.splits sum.splits)

lemma parse_signed:
  assumes sg: "SignedString L t key = Inr s"
    and m: "tMethod t = SigningMethodHMAC h"
    and a: "alg (tHeader t) = Some (Alg (SigningMethodHMAC h))"
    and rt: "codec_roundtrip L t key"
  shows "\<exists>parts. ParseUnverified L s =
            Inr (\<lparr>tRaw = s, tMethod = SigningMethodHMAC h, tHeader = tHeader t,
                  tClaims = tClaims t, tSignature = '''', tValid = False\<rparr>, parts) \<and>
          DecodeSegment L (parts ! 2) = Some (hmacSum L h key (parts ! 0 @ ''.'' @ parts ! 1))"
proof -
  from SignedString_HMAC [OF sg m] obtain hs cs where
    e: "encodeHeader L (tHeader t) = Some hs" "encodeClaims L (tClaims t) = Some cs"
    and s: "s = hs @ CHR ''.'' # cs @ CHR ''.'' # EncodeSegment L (hmacSum L h key (hs @ ''.'' @ cs))"
    by blast
  let ?sig = "hmacSum L h key (hs @ ''.'' @ cs)"
  from rt e m have d: "decodeHeader L hs = Some (tHeader t)" "decodeClaims L cs = Some (tClaims t)"
    "CHR ''.'' \<notin> set hs" "CHR ''.'' \<notin> set cs"
    "DecodeSegment L (EncodeSegment L ?sig) = Some ?sig" "CHR ''.'' \<notin> set (EncodeSegment L ?sig)"
    by (simp_all add: codec_roundtrip_def Sign_def)
  have sp: "Split s (CHR ''.'') = [hs, cs, EncodeSegment L ?sig]"
    unfolding s using d(3,4,6) by (rule Split_triple_I)
  show ?thesis
    using d(1,2,5) a by (simp add: ParseUnverified_def sp GetSigningMethod_Alg)
qed

section \<open>Facts about time and issuance\<close>

lemma Unix_add_day: "Unix (now1 + 24 * Hour) = Unix now1 + 24 * 3600"
  by (simp add: Unix_def Hour_def Second_def)

lemma NewNumericDate_Unix: "NewNumericDate t = Unix t * Second"
  by (simp add: NewNumericDate_def Unix_def minus_mod_eq_div_mult)

lemma generateGuestToken_eq:
  "generateGuestToken L now1 now2 name =
     (case SignedString L (issuedToken name now1 now2) jwtSecret of
        Inl err \<Rightarrow> ('''', 0, Some err)
      | Inr s \<Rightarrow> (s, Unix (now1 + 24 * Hour), None))"
  by (simp add: generateGuestToken_def issuedToken_def issuedClaims_def claims_of_def Let_def)

lemma generateGuestToken_ok_iff:
  "generateGuestToken L now1 now2 name = (tok, e, None) \<longleftrightarrow>
     SignedString L (issuedToken name now1 now2) jwtSecret = Inr tok \<and>
     e = Unix (now1 + 24 * Hour)"
  by (auto simp add: generateGuestToken_eq split: sum.splits)

lemma issuedToken_simps:
  "tMethod (issuedToken name now1 now2) = SigningMethodHMAC SHA256"
  "alg (tHeader (issuedToken name now1 now2)) = Some (Alg (SigningMethodHMAC SHA256))"
  "tClaims (issuedToken name now1 now2) = issuedClaims name now1 now2"
  by (simp_all add: issuedToken_def NewWithClaims_def)

lemma issuedClaims_simps:
  "GuestName (issuedClaims name now1 now2) = name"
  "ExpiresAt (issuedClaims name now1 now2) = Some (NewNumericDate (now1 + 24 * Hour))"
  "NotBefore (issuedClaims name now1 now2) = None"
  "IssuedAt (issuedClaims name now1 now2) = Some (NewNumericDate now2)"
  by (simp_all add: issuedClaims_def claims_of_def)

lemma parse_issued:
  assumes "SignedString L (issuedToken name now1 now2) jwtSecret = Inr tok"
    and "codec_roundtrip L (issuedToken name now1 now2) jwtSecret"
  shows "\<exists>t parts. ParseUnverified L tok = Inr (t, parts) \<and>
           tMethod t = SigningMethodHMAC SHA256 \<and>
           tClaims t = issuedClaims name now1 now2 \<and>
           DecodeSegment L (parts ! 2) =
             Some (hmacSum L SHA256 jwtSecret (parts ! 0 @ ''.'' @ parts ! 1))"
  using parse_signed [OF assms(1) issuedToken_simps(1) issuedToken_simps(2) assms(2)]
  by (auto simp add: issuedToken_simps)

lemma validate_issued:
  assumes "SignedString L (issuedToken name now1 now2) jwtSecret = Inr tok"
    and "codec_roundtrip L (issuedToken name now1 now2) jwtSecret"
    and "now < NewNumericDate (now1 + 24 * Hour)"
  shows "validateToken L now tok = Inr (issuedClaims name now1 now2)"
proof -
  from parse_issued [OF assms(1,2)] obtain t parts where
    p: "ParseUnverified L tok = Inr (t, parts)" "tMethod t = SigningMethodHMAC SHA256"
       "tClaims t = issuedClaims name now1 now2"
       "DecodeSegment L (parts ! 2) =
          Some (hmacSum L SHA256 jwtSecret (parts ! 0 @ ''.'' @ parts ! 1))"
    by blast
  have "Validate now (tClaims t) = []"
    using assms(3) p(3) by (simp add: Validate_def issuedClaims_simps)
  with p show ?thesis unfolding validateToken_Inr_iff by auto
qed


section \<open>Credential extraction\<close>

lemma extract_bearer:
  assumes "Get (Header r) ''Authorization'' = ''Bearer '' @ tok" "CHR '' '' \<notin> set tok"
  shows "extractTokenFromRequest r = (tok, None)"
  using assms Split_bearer [of tok] by (simp add: extractTokenFromRequest_def Let_def)

lemma extract_fallback:
  assumes "\<not> (length (Split (Get (Header r) ''Authorization'') (CHR '' '')) = 2 \<and>
              Split (Get (Header r) ''Authorization'') (CHR '' '') ! 0 = ''Bearer'')"
  shows "extractTokenFromRequest r =
           (if Get (URLQuery r) ''token'' \<noteq> '''' then (Get (URLQuery r) ''token'', None)
            else ('''', Some ErrNoTokenFound))"
  using assms by (auto simp add: extractTokenFromRequest_def Let_def)

lemma extract_query_request: "tok \<noteq> '''' \<Longrightarrow> extractTokenFromRequest (query_request tok) = (tok, None)"
  by (simp add: extractTokenFromRequest_def query_request_def Get_def)

text \<open>
  C4. A request that carries the header \<^verbatim>\<open>Authorization: Bearer tok\<close>, with a token
  without a space, and a non-empty \<^verbatim>\<open>token\<close> query parameter: the credential extracted
  is the header's token, not the query parameter.
\<close>

theorem extract_header_precedence:
  assumes "Get (Header r) ''Authorization'' = ''Bearer '' @ tok"
    and "CHR '' '' \<notin> set tok"
    and "Get (URLQuery r) ''token'' = q"
    and "q \<noteq> ''''"
  shows "extractTokenFromRequest r = (tok, None)"
  using assms(1,2) by (rule extract_bearer)

theorem extract_header_precedence_witness:
  "Get (Header \<lparr>Method = ''GET'', Header = [''Authorization'' \<mapsto> [''Bearer abc'']],
                  URLQuery = [''token'' \<mapsto> [''xyz'']]\<rparr>) ''Authorization'' = ''Bearer '' @ ''abc'' \<and>
   CHR '' '' \<notin> set ''abc'' \<and>
   Get (URLQuery \<lparr>Method = ''GET'', Header = [''Authorization'' \<mapsto> [''Bearer abc'']],
                  URLQuery = [''token'' \<mapsto> [''xyz'']]\<rparr>) ''token'' = ''xyz'' \<and>
   ''xyz'' \<noteq> '''' \<and>
   extractTokenFromRequest \<lparr>Method = ''GET'', Header = [''Authorization'' \<mapsto> [''Bearer abc'']],
                  URLQuery = [''token'' \<mapsto> [''xyz'']]\<rparr> = (''abc'', None)"
  using extract_header_precedence
    [of "\<lparr>Method = ''GET'', Header = [''Authorization'' \<mapsto> [''Bearer abc'']],
          URLQuery = [''token'' \<mapsto> [''xyz'']]\<rparr>" "''abc''" "''xyz''"]
  by (simp add: Get_def)

text \<open>
  C5. The request whose \<^verbatim>\<open>Authorization\<close> header is \<^verbatim>\<open>Bearer\<close> followed by one space,
  with no \<^verbatim>\<open>token\<close> query parameter: neither source yields a non-empty credential, and
  the extraction succeeds, with the empty string as the credential. With a \<^verbatim>\<open>token\<close>
  query parameter beside that header, the extraction still returns the empty string and
  does not fall back to the query parameter.
\<close>

theorem extract_empty_bearer:
  "extractTokenFromRequest (header_request ''Bearer '') = ('''', None) \<and>
   extractTokenFromRequest
     ((header_request ''Bearer '')\<lparr>URLQuery := [''token'' \<mapsto> [''xyz'']]\<rparr>) = ('''', None)"
  by (simp add: extractTokenFromRequest_def header_request_def Get_def)

text \<open>
  What the extraction does on every request: it fails exactly when the header is not a
  two-part bearer header and the query parameter is empty, and a credential taken from
  the query parameter is never empty.
\<close>

lemma extract_fails_iff:
  "snd (extractTokenFromRequest r) \<noteq> None \<longleftrightarrow>
     (\<not> (\<exists>tok. Get (Header r) ''Authorization'' = ''Bearer '' @ tok \<and> CHR '' '' \<notin> set tok) \<and>
      Get (URLQuery r) ''token'' = '''')"
proof (cases "\<exists>tok. Get (Header r) ''Authorization'' = ''Bearer '' @ tok \<and> CHR '' '' \<notin> set tok")
  case True
  then obtain tok where "Get (Header r) ''Authorization'' = ''Bearer '' @ tok" "CHR '' '' \<notin> set tok"
    by blast
  then have "extractTokenFromRequest r = (tok, None)" by (rule extract_bearer)
  with True show ?thesis by simp
next
  case False
  then have "\<not> (length (Split (Get (Header r) ''Authorization'') (CHR '' '')) = 2 \<and>
              Split (Get (Header r) ''Authorization'') (CHR '' '') ! 0 = ''Bearer'')"
    using bearer_parts_iff [of "Get (Header r) ''Authorization''"] by simp
  then show ?thesis using False by (simp add: extract_fallback)
qed

text \<open>
  C9. A request whose \<^verbatim>\<open>Authorization\<close> header is not empty and is not two
  space-separated parts of which the first is \<^verbatim>\<open>Bearer\<close>: the extraction gives what it
  gives for the same request without any header, that is the \<^verbatim>\<open>token\<close> query parameter
  when it is not empty, and the missing-token error otherwise.
\<close>

theorem extract_malformed_header_fallback:
  assumes "Get (Header r) ''Authorization'' = h"
    and "h \<noteq> ''''"
    and "\<not> (length (Split h (CHR '' '')) = 2 \<and> Split h (CHR '' '') ! 0 = ''Bearer'')"
  shows "extractTokenFromRequest r = extractTokenFromRequest (r\<lparr>Header := Map.empty\<rparr>) \<and>
         extractTokenFromRequest r =
           (if Get (URLQuery r) ''token'' \<noteq> '''' then (Get (URLQuery r) ''token'', None)
            else ('''', Some ErrNoTokenFound))"
proof -
  have "extractTokenFromRequest (r\<lparr>Header := Map.empty\<rparr>) =
          (if Get (URLQuery r) ''token'' \<noteq> '''' then (Get (URLQuery r) ''token'', None)
           else ('''', Some ErrNoTokenFound))"
    by (simp add: extractTokenFromRequest_def Get_def)
  moreover have "extractTokenFromRequest r =
          (if Get (URLQuery r) ''token'' \<noteq> '''' then (Get (URLQuery r) ''token'', None)
           else ('''', Some ErrNoTokenFound))"
    using assms(1,3) by (intro extract_fallback) simp
  ultimately show ?thesis by simp
qed

theorem extract_malformed_header_fallback_witness:
  "Get (Header \<lparr>Method = ''GET'', Header = [''Authorization'' \<mapsto> [''Bearer a b'']],
                  URLQuery = [''token'' \<mapsto> [''xyz'']]\<rparr>) ''Authorization'' = ''Bearer a b'' \<and>
   ''Bearer a b'' \<noteq> '''' \<and>
   \<not> (length (Split ''Bearer a b'' (CHR '' '')) = 2 \<and>
      Split ''Bearer a b'' (CHR '' '') ! 0 = ''Bearer'') \<and>
   extractTokenFromRequest \<lparr>Method = ''GET'', Header = [''Authorization'' \<mapsto> [''Bearer a b'']],
                  URLQuery = [''token'' \<mapsto> [''xyz'']]\<rparr> = (''xyz'', None)"
  using extract_malformed_header_fallback
    [of "\<lparr>Method = ''GET'', Header = [''Authorization'' \<mapsto> [''Bearer a b'']],
          URLQuery = [''token'' \<mapsto> [''xyz'']]\<rparr>" "''Bearer a b''"]
  by (simp add: Get_def extractTokenFromRequest_def)

section \<open>The Hub registry\<close>

text \<open>
  C8. Unregistering a session twice leaves the registry as unregistering it once does,
  and unregistering a session that is not in the registry leaves the Hub unchanged.
\<close>

theorem unregister_idempotent:
  "unregister s (unregister s h) = unregister s h \<and>
   (s \<notin> clients h \<longrightarrow> unregister s h = h)"
  by (simp add: unregister_def)

theorem unregister_idempotent_witness:
  "unregister (3::nat) (unregister 3 \<lparr>clients = {1, 2, 3}\<rparr>) = unregister 3 \<lparr>clients = {1, 2, 3}\<rparr> \<and>
   unregister (3::nat) \<lparr>clients = {1, 2, 3}\<rparr> = \<lparr>clients = {1, 2}\<rparr> \<and>
   (4::nat) \<notin> clients \<lparr>clients = {1, 2, 3}\<rparr> \<and>
   unregister (4::nat) \<lparr>clients = {1, 2, 3}\<rparr> = \<lparr>clients = {1, 2, 3}\<rparr>"
  using unregister_idempotent [of "3::nat" "\<lparr>clients = {1, 2, 3}\<rparr>"]
    unregister_idempotent [of "4::nat" "\<lparr>clients = {1, 2, 3}\<rparr>"]
  by (auto simp add: unregister_def)


section \<open>Validation\<close>

text \<open>
  C1, as the code has it. The verifier accepts the methods of one Go type only, the HMAC
  methods HS256, HS384 and HS512: a token whose method (the one its \<^verbatim>\<open>alg\<close> header
  names) is not of the HMAC type is refused by \<^verbatim>\<open>validateToken\<close>, whatever its claims and
  its signature and however the library verifies signatures of that method, and
  \<^verbatim>\<open>authenticateWebSocket\<close> refuses every request from which that token is extracted,
  with an error and the empty identity.
\<close>

theorem validateToken_rejects_non_HMAC:
  assumes "ParseUnverified L s = Inr (t, parts)"
    and "\<not> isHMAC (tMethod t)"
  shows "(\<exists>err. validateToken L now s = Inl err) \<and>
         (\<forall>r. extractTokenFromRequest r = (s, None) \<longrightarrow>
              (\<exists>err. authenticateWebSocket L now r = ('''', Some err)))"
proof -
  have "\<forall>c. validateToken L now s \<noteq> Inr c"
    using assms by (auto simp add: validateToken_Inr_iff)
  then obtain err where e: "validateToken L now s = Inl err"
    using validateToken_not_Inr by blast
  then show ?thesis by (auto simp add: authenticate_cases)
qed

theorem validateToken_rejects_non_HMAC_witness:
  "ParseUnverified (table_library [(''guest'', claims_of ''guest-1a2b'' (Some 2000) (Some 1000))])
     ''RS256.guest.sig'' =
     Inr (\<lparr>tRaw = ''RS256.guest.sig'', tMethod = SigningMethodRSA SHA256,
           tHeader = \<lparr>alg = Some ''RS256'', typeHdr = Some ''JWT''\<rparr>,
           tClaims = claims_of ''guest-1a2b'' (Some 2000) (Some 1000),
           tSignature = '''', tValid = False\<rparr>, [''RS256'', ''guest'', ''sig'']) \<and>
   \<not> isHMAC (SigningMethodRSA SHA256) \<and>
   extractTokenFromRequest (query_request ''RS256.guest.sig'') = (''RS256.guest.sig'', None) \<and>
   (\<exists>err. validateToken (table_library [(''guest'', claims_of ''guest-1a2b'' (Some 2000) (Some 1000))])
      1500 ''RS256.guest.sig'' = Inl err) \<and>
   (\<exists>err. authenticateWebSocket (table_library [(''guest'', claims_of ''guest-1a2b'' (Some 2000) (Some 1000))])
      1500 (query_request ''RS256.guest.sig'') = ('''', Some err))"
proof -
  let ?L = "table_library [(''guest'', claims_of ''guest-1a2b'' (Some 2000) (Some 1000))]"
  let ?t = "\<lparr>tRaw = ''RS256.guest.sig'', tMethod = SigningMethodRSA SHA256,
           tHeader = \<lparr>alg = Some ''RS256'', typeHdr = Some ''JWT''\<rparr>,
           tClaims = claims_of ''guest-1a2b'' (Some 2000) (Some 1000),
           tSignature = '''', tValid = False\<rparr>"
  have p: "ParseUnverified ?L ''RS256.guest.sig'' = Inr (?t, [''RS256'', ''guest'', ''sig''])"
    by (simp add: ParseUnverified_def table_library_def GetSigningMethod_def)
  have h: "\<not> isHMAC (tMethod ?t)" by simp
  have x: "extractTokenFromRequest (query_request ''RS256.guest.sig'') = (''RS256.guest.sig'', None)"
    by (rule extract_query_request) simp
  from validateToken_rejects_non_HMAC [OF p h, of 1500] p x show ?thesis by simp
qed

text \<open>
  C1, as it is stated, fails: tokens are issued under HS256, and the token below names
  HS512, another algorithm, and carries the HS512 keyed hash of its signing string under
  the secret. \<^verbatim>\<open>validateToken\<close> accepts it and \<^verbatim>\<open>authenticateWebSocket\<close> returns its guest
  name.
\<close>

theorem validateToken_accepts_HS512:
  "GetSigningMethod ''HS512'' = Some (SigningMethodHMAC SHA512) \<and>
   tMethod (issuedToken ''guest-1a2b'' 0 5) = SigningMethodHMAC SHA256 \<and>
   SigningMethodHMAC SHA512 \<noteq> SigningMethodHMAC SHA256 \<and>
   validateToken (table_library [(''guest'', claims_of ''guest-1a2b'' (Some 2000) (Some 1000))]) 1500
     ''HS512.guest.s512-your-secret-key-change-in-productionHS512guest'' =
     Inr (claims_of ''guest-1a2b'' (Some 2000) (Some 1000)) \<and>
   authenticateWebSocket
     (table_library [(''guest'', claims_of ''guest-1a2b'' (Some 2000) (Some 1000))]) 1500
     (query_request ''HS512.guest.s512-your-secret-key-change-in-productionHS512guest'') =
     (''guest-1a2b'', None)"
proof -
  let ?L = "table_library [(''guest'', claims_of ''guest-1a2b'' (Some 2000) (Some 1000))]"
  let ?s = "''HS512.guest.s512-your-secret-key-change-in-productionHS512guest''"
  have x: "extractTokenFromRequest (query_request ?s) = (?s, None)"
    by (rule extract_query_request) simp
  have v: "validateToken ?L 1500 ?s = Inr (claims_of ''guest-1a2b'' (Some 2000) (Some 1000))"
    by (simp add: validateToken_def ParseWithClaims_def ParseUnverified_def table_library_def
        GetSigningMethod_def keyFunc_def Verify_def Validate_def claims_of_def jwtSecret_def)
  have a: "authenticateWebSocket ?L 1500 (query_request ?s) = (''guest-1a2b'', None)"
    by (simp add: authenticate_cases x v) (simp add: claims_of_def)
  from v a show ?thesis
    by (simp add: GetSigningMethod_def issuedToken_simps)
qed

text \<open>
  C3. A token whose expiry is at or before the time of validation is refused by
  \<^verbatim>\<open>validateToken\<close>, and \<^verbatim>\<open>authenticateWebSocket\<close> refuses every request from which that
  token is extracted, with an error and the empty identity.
\<close>

theorem validateToken_rejects_expired:
  assumes "ParseUnverified L s = Inr (t, parts)"
    and "ExpiresAt (tClaims t) = Some e"
    and "e \<le> now"
  shows "(\<exists>err. validateToken L now s = Inl err) \<and>
         (\<forall>r. extractTokenFromRequest r = (s, None) \<longrightarrow>
              (\<exists>err. authenticateWebSocket L now r = ('''', Some err)))"
proof -
  have "Validate now (tClaims t) \<noteq> []"
    using assms(2,3) by (simp add: Validate_def)
  then have "\<forall>c. validateToken L now s \<noteq> Inr c"
    using assms(1) by (auto simp add: validateToken_Inr_iff)
  then obtain err where e: "validateToken L now s = Inl err"
    using validateToken_not_Inr by blast
  then show ?thesis by (auto simp add: authenticate_cases)
qed

theorem validateToken_rejects_expired_witness:
  "ParseUnverified (table_library [(''guest'', claims_of ''guest-1a2b'' (Some 2000) (Some 1000))])
     ''HS256.guest.s256-your-secret-key-change-in-productionHS256guest'' =
     Inr (\<lparr>tRaw = ''HS256.guest.s256-your-secret-key-change-in-productionHS256guest'',
           tMethod = SigningMethodHMAC SHA256,
           tHeader = \<lparr>alg = Some ''HS256'', typeHdr = Some ''JWT''\<rparr>,
           tClaims = claims_of ''guest-1a2b'' (Some 2000) (Some 1000),
           tSignature = '''', tValid = False\<rparr>,
          [''HS256'', ''guest'', ''s256-your-secret-key-change-in-productionHS256guest'']) \<and>
   ExpiresAt (claims_of ''guest-1a2b'' (Some 2000) (Some 1000)) = Some 2000 \<and>
   (2000::int) \<le> 2000 \<and>
   extractTokenFromRequest
     (query_request ''HS256.guest.s256-your-secret-key-change-in-productionHS256guest'') =
     (''HS256.guest.s256-your-secret-key-change-in-productionHS256guest'', None) \<and>
   (\<exists>err. validateToken (table_library [(''guest'', claims_of ''guest-1a2b'' (Some 2000) (Some 1000))])
      2000 ''HS256.guest.s256-your-secret-key-change-in-productionHS256guest'' = Inl err) \<and>
   (\<exists>err. authenticateWebSocket (table_library [(''guest'', claims_of ''guest-1a2b'' (Some 2000) (Some 1000))])
      2000 (query_request ''HS256.guest.s256-your-secret-key-change-in-productionHS256guest'') =
      ('''', Some err))"
proof -
  let ?L = "table_library [(''guest'', claims_of ''guest-1a2b'' (Some 2000) (Some 1000))]"
  let ?s = "''HS256.guest.s256-your-secret-key-change-in-productionHS256guest''"
  let ?t = "\<lparr>tRaw = ?s, tMethod = SigningMethodHMAC SHA256,
           tHeader = \<lparr>alg = Some ''HS256'', typeHdr = Some ''JWT''\<rparr>,
           tClaims = claims_of ''guest-1a2b'' (Some 2000) (Some 1000),
           tSignature = '''', tValid = False\<rparr>"
  have p: "ParseUnverified ?L ?s =
             Inr (?t, [''HS256'', ''guest'', ''s256-your-secret-key-change-in-productionHS256guest''])"
    by (simp add: ParseUnverified_def table_library_def GetSigningMethod_def)
  have e: "ExpiresAt (tClaims ?t) = Some 2000" by (simp add: claims_of_def)
  have x: "extractTokenFromRequest (query_request ?s) = (?s, None)"
    by (rule extract_query_request) simp
  from validateToken_rejects_expired [OF p e, of 2000] p x show ?thesis
    by (simp add: claims_of_def)
qed

text \<open>The same token is accepted one nanosecond before its expiry.\<close>

lemma validateToken_accepts_unexpired:
  "validateToken (table_library [(''guest'', claims_of ''guest-1a2b'' (Some 2000) (Some 1000))]) 1999
     ''HS256.guest.s256-your-secret-key-change-in-productionHS256guest'' =
   Inr (claims_of ''guest-1a2b'' (Some 2000) (Some 1000))"
  by (simp add: validateToken_def ParseWithClaims_def ParseUnverified_def table_library_def
      GetSigningMethod_def keyFunc_def Verify_def Validate_def claims_of_def jwtSecret_def)


section \<open>Issuance and authentication\<close>

text \<open>
  C2. When \<^verbatim>\<open>generateGuestToken\<close> returns a token for a guest name, and the library
  decodes what it encoded for that token, then at any time before the token's expiry
  \<^verbatim>\<open>validateToken\<close> accepts the token and returns the claims that were signed, whose
  guest name is the name given; and \<^verbatim>\<open>authenticateWebSocket\<close> returns exactly that name,
  with no error, for every request from which the token is extracted.
\<close>

theorem generate_validate_roundtrip:
  assumes "generateGuestToken L now1 now2 name = (tok, expiresAt, None)"
    and "codec_roundtrip L (issuedToken name now1 now2) jwtSecret"
    and "now < NewNumericDate (now1 + 24 * Hour)"
  shows "validateToken L now tok = Inr (issuedClaims name now1 now2) \<and>
         GuestName (issuedClaims name now1 now2) = name \<and>
         (\<forall>r. extractTokenFromRequest r = (tok, None) \<longrightarrow>
              authenticateWebSocket L now r = (name, None))"
proof -
  from assms(1) have sg: "SignedString L (issuedToken name now1 now2) jwtSecret = Inr tok"
    by (simp add: generateGuestToken_ok_iff)
  have v: "validateToken L now tok = Inr (issuedClaims name now1 now2)"
    using sg assms(2,3) by (rule validate_issued)
  then show ?thesis by (simp add: authenticate_cases issuedClaims_simps)
qed

theorem generate_validate_roundtrip_witness:
  "generateGuestToken (table_library [(''guest'', issuedClaims ''guest-1a2b'' 0 5)]) 0 5 ''guest-1a2b'' =
     (''HS256.guest.s256-your-secret-key-change-in-productionHS256guest'', 86400, None) \<and>
   codec_roundtrip (table_library [(''guest'', issuedClaims ''guest-1a2b'' 0 5)])
     (issuedToken ''guest-1a2b'' 0 5) jwtSecret \<and>
   (86399999999999::int) < NewNumericDate (0 + 24 * Hour) \<and>
   extractTokenFromRequest
     (query_request ''HS256.guest.s256-your-secret-key-change-in-productionHS256guest'') =
     (''HS256.guest.s256-your-secret-key-change-in-productionHS256guest'', None) \<and>
   validateToken (table_library [(''guest'', issuedClaims ''guest-1a2b'' 0 5)]) 86399999999999
     ''HS256.guest.s256-your-secret-key-change-in-productionHS256guest'' =
     Inr (issuedClaims ''guest-1a2b'' 0 5) \<and>
   authenticateWebSocket (table_library [(''guest'', issuedClaims ''guest-1a2b'' 0 5)]) 86399999999999
     (query_request ''HS256.guest.s256-your-secret-key-change-in-productionHS256guest'') =
     (''guest-1a2b'', None)"
proof -
  let ?L = "table_library [(''guest'', issuedClaims ''guest-1a2b'' 0 5)]"
  let ?s = "''HS256.guest.s256-your-secret-key-change-in-productionHS256guest''"
  have g: "generateGuestToken ?L 0 5 ''guest-1a2b'' = (?s, 86400, None)"
    by (simp add: generateGuestToken_eq SignedString_def SigningString_def Sign_def
        issuedToken_def NewWithClaims_def table_library_def jwtSecret_def Unix_def Hour_def
        Second_def)
  have c: "codec_roundtrip ?L (issuedToken ''guest-1a2b'' 0 5) jwtSecret"
    by (simp add: codec_roundtrip_def Sign_def issuedToken_def NewWithClaims_def
        table_library_def jwtSecret_def)
  have n: "(86399999999999::int) < NewNumericDate (0 + 24 * Hour)"
    by (simp add: NewNumericDate_def Hour_def Second_def)
  have x: "extractTokenFromRequest (query_request ?s) = (?s, None)"
    by (rule extract_query_request) simp
  from generate_validate_roundtrip [OF g c n] g c n x show ?thesis by simp
qed

text \<open>
  C6. A successful \<^verbatim>\<open>handleGetToken\<close> (status 200) answers with a token, a guest
  identity and an \<^verbatim>\<open>expires_at\<close>: the token is the signed string of claims whose guest
  name is the identity returned and whose expiry is \<^verbatim>\<open>expires_at\<close> (in seconds), which is
  24 hours after the second in which the handler read the clock; and where the library
  decodes what it encoded, the claims read back from the token carry that identity and
  that expiry.
\<close>

theorem handleGetToken_issuance:
  assumes "status (handleGetToken L rnd now1 now2 r) = 200"
  shows "\<exists>tr. body (handleGetToken L rnd now1 now2 r) = TokenBody tr \<and>
           guest_name tr = ''guest-'' @ rnd \<and>
           SignedString L (issuedToken (guest_name tr) now1 now2) jwtSecret = Inr (token tr) \<and>
           GuestName (tClaims (issuedToken (guest_name tr) now1 now2)) = guest_name tr \<and>
           ExpiresAt (tClaims (issuedToken (guest_name tr) now1 now2)) =
             Some (expires_at tr * Second) \<and>
           expires_at tr = Unix now1 + 24 * 3600 \<and>
           (codec_roundtrip L (issuedToken (guest_name tr) now1 now2) jwtSecret \<longrightarrow>
              (\<exists>t parts. ParseUnverified L (token tr) = Inr (t, parts) \<and>
                 GuestName (tClaims t) = guest_name tr \<and>
                 ExpiresAt (tClaims t) = Some (expires_at tr * Second)))"
proof -
  let ?g = "''guest-'' @ rnd"
  from assms obtain tok e where
    g: "generateGuestToken L now1 now2 ?g = (tok, e, None)"
    and b: "body (handleGetToken L rnd now1 now2 r) =
              TokenBody \<lparr>token = tok, guest_name = ?g, expires_at = e\<rparr>"
    by (auto simp add: handleGetToken_def Let_def split: if_splits prod.splits option.splits)
  from g have sg: "SignedString L (issuedToken ?g now1 now2) jwtSecret = Inr tok"
    and e: "e = Unix (now1 + 24 * Hour)"
    by (simp_all add: generateGuestToken_ok_iff)
  have x: "ExpiresAt (issuedClaims ?g now1 now2) = Some (e * Second)"
    by (simp add: issuedClaims_simps NewNumericDate_Unix e)
  have rt: "codec_roundtrip L (issuedToken ?g now1 now2) jwtSecret \<longrightarrow>
              (\<exists>t parts. ParseUnverified L tok = Inr (t, parts) \<and>
                 GuestName (tClaims t) = ?g \<and> ExpiresAt (tClaims t) = Some (e * Second))"
  proof
    assume "codec_roundtrip L (issuedToken ?g now1 now2) jwtSecret"
    from parse_issued [OF sg this] obtain t parts where
      "ParseUnverified L tok = Inr (t, parts)" "tClaims t = issuedClaims ?g now1 now2"
      by blast
    with x show "\<exists>t parts. ParseUnverified L tok = Inr (t, parts) \<and>
                 GuestName (tClaims t) = ?g \<and> ExpiresAt (tClaims t) = Some (e * Second)"
      by (auto simp add: issuedClaims_simps)
  qed
  show ?thesis
    using b sg x rt e by (simp add: issuedToken_simps issuedClaims_simps Unix_add_day)
qed

theorem handleGetToken_issuance_witness:
  "status (handleGetToken (table_library [(''guest'', issuedClaims ''guest-1a2b'' 0 5)])
             ''1a2b'' 0 5 (query_request '''')) = 200 \<and>
   handleGetToken (table_library [(''guest'', issuedClaims ''guest-1a2b'' 0 5)])
             ''1a2b'' 0 5 (query_request '''') =
     \<lparr>status = 200, contentType = ''application/json'',
      body = TokenBody
        \<lparr>token = ''HS256.guest.s256-your-secret-key-change-in-productionHS256guest'',
         guest_name = ''guest-1a2b'', expires_at = 86400\<rparr>\<rparr> \<and>
   (\<exists>tr. body (handleGetToken (table_library [(''guest'', issuedClaims ''guest-1a2b'' 0 5)])
             ''1a2b'' 0 5 (query_request '''')) = TokenBody tr \<and>
      expires_at tr = Unix 0 + 24 * 3600 \<and>
      (\<exists>t parts. ParseUnverified (table_library [(''guest'', issuedClaims ''guest-1a2b'' 0 5)])
                    (token tr) = Inr (t, parts) \<and>
                  GuestName (tClaims t) = guest_name tr \<and>
                  ExpiresAt (tClaims t) = Some (expires_at tr * Second)))"
proof -
  let ?L = "table_library [(''guest'', issuedClaims ''guest-1a2b'' 0 5)]"
  let ?s = "''HS256.guest.s256-your-secret-key-change-in-productionHS256guest''"
  have g: "generateGuestToken ?L 0 5 ''guest-1a2b'' = (?s, 86400, None)"
    by (simp add: generateGuestToken_eq SignedString_def SigningString_def Sign_def
        issuedToken_def NewWithClaims_def table_library_def jwtSecret_def Unix_def Hour_def
        Second_def)
  have h: "handleGetToken ?L ''1a2b'' 0 5 (query_request '''') =
     \<lparr>status = 200, contentType = ''application/json'',
      body = TokenBody \<lparr>token = ?s, guest_name = ''guest-1a2b'', expires_at = 86400\<rparr>\<rparr>"
    using g by (simp add: handleGetToken_def query_request_def)
  have st: "status (handleGetToken ?L ''1a2b'' 0 5 (query_request '''')) = 200"
    by (simp add: h)
  have c: "codec_roundtrip ?L (issuedToken ''guest-1a2b'' 0 5) jwtSecret"
    by (simp add: codec_roundtrip_def Sign_def issuedToken_def NewWithClaims_def
        table_library_def jwtSecret_def)
  from handleGetToken_issuance [OF st] obtain tr where
    tr: "body (handleGetToken ?L ''1a2b'' 0 5 (query_request '''')) = TokenBody tr"
      "guest_name tr = ''guest-'' @ ''1a2b''"
      "expires_at tr = Unix 0 + 24 * 3600"
      "codec_roundtrip ?L (issuedToken (guest_name tr) 0 5) jwtSecret \<longrightarrow>
         (\<exists>t parts. ParseUnverified ?L (token tr) = Inr (t, parts) \<and>
            GuestName (tClaims t) = guest_name tr \<and>
            ExpiresAt (tClaims t) = Some (expires_at tr * Second))"
    by blast
  from tr(2) c have "codec_roundtrip ?L (issuedToken (guest_name tr) 0 5) jwtSecret" by simp
  with tr(4) have "\<exists>t parts. ParseUnverified ?L (token tr) = Inr (t, parts) \<and>
            GuestName (tClaims t) = guest_name tr \<and>
            ExpiresAt (tClaims t) = Some (expires_at tr * Second)" by blast
  with tr(1,3) st h show ?thesis by blast
qed

text \<open>
  The issue date of the token comes from a second reading of the clock: the expiry is 24
  hours after the issue date in the token when both readings fall in one second.
\<close>

lemma issued_validity_window:
  assumes "Unix now2 = Unix now1"
  shows "ExpiresAt (issuedClaims name now1 now2) =
           Some (the (IssuedAt (issuedClaims name now1 now2)) + 24 * Hour)"
proof -
  have "NewNumericDate (now1 + 24 * Hour) = (Unix now1 + 24 * 3600) * Second"
    unfolding NewNumericDate_Unix Unix_add_day ..
  moreover have "NewNumericDate now2 = Unix now1 * Second"
    using assms by (simp add: NewNumericDate_Unix)
  ultimately show ?thesis
    by (simp add: issuedClaims_simps Hour_def algebra_simps)
qed

text \<open>
  C7, as the code has it. \<^verbatim>\<open>authenticateWebSocket\<close> returns no error exactly when the
  extraction and the validation both succeed, and then it returns the guest name of the
  validated claims, which is empty when the token's claims carry no guest name; with an
  error it returns the empty identity.
\<close>

theorem authenticate_gate:
  "(snd (authenticateWebSocket L now r) = None \<longleftrightarrow>
      snd (extractTokenFromRequest r) = None \<and>
      (\<exists>c. validateToken L now (fst (extractTokenFromRequest r)) = Inr c)) \<and>
   (\<forall>c. snd (extractTokenFromRequest r) = None \<and>
        validateToken L now (fst (extractTokenFromRequest r)) = Inr c \<longrightarrow>
        authenticateWebSocket L now r = (GuestName c, None)) \<and>
   (snd (authenticateWebSocket L now r) \<noteq> None \<longrightarrow> fst (authenticateWebSocket L now r) = '''')"
  by (auto simp add: authenticate_cases split: option.splits sum.splits)

theorem authenticate_gate_witness:
  "snd (extractTokenFromRequest
          (query_request ''HS256.guest.s256-your-secret-key-change-in-productionHS256guest'')) = None \<and>
   validateToken (table_library [(''guest'', issuedClaims ''guest-1a2b'' 0 5)]) 7
     (fst (extractTokenFromRequest
          (query_request ''HS256.guest.s256-your-secret-key-change-in-productionHS256guest''))) =
     Inr (issuedClaims ''guest-1a2b'' 0 5) \<and>
   authenticateWebSocket (table_library [(''guest'', issuedClaims ''guest-1a2b'' 0 5)]) 7
     (query_request ''HS256.guest.s256-your-secret-key-change-in-productionHS256guest'') =
     (''guest-1a2b'', None) \<and>
   snd (authenticateWebSocket (table_library [(''guest'', issuedClaims ''guest-1a2b'' 0 5)]) 7
     (query_request '''')) \<noteq> None \<and>
   fst (authenticateWebSocket (table_library [(''guest'', issuedClaims ''guest-1a2b'' 0 5)]) 7
     (query_request '''')) = ''''"
proof -
  let ?L = "table_library [(''guest'', issuedClaims ''guest-1a2b'' 0 5)]"
  let ?s = "''HS256.guest.s256-your-secret-key-change-in-productionHS256guest''"
  have x: "extractTokenFromRequest (query_request ?s) = (?s, None)"
    by (rule extract_query_request) simp
  have v: "validateToken ?L 7 ?s = Inr (issuedClaims ''guest-1a2b'' 0 5)"
    by (simp add: validateToken_def ParseWithClaims_def ParseUnverified_def table_library_def
        GetSigningMethod_def keyFunc_def Verify_def Validate_def issuedClaims_def claims_of_def
        jwtSecret_def NewNumericDate_def Hour_def Second_def)
  have y: "extractTokenFromRequest (query_request '''') = ('''', Some ErrNoTokenFound)"
    by (simp add: extractTokenFromRequest_def query_request_def Get_def)
  from authenticate_gate [of ?L 7 "query_request ?s"]
    authenticate_gate [of ?L 7 "query_request ''''"] x v y
  show ?thesis by (simp add: issuedClaims_simps authenticate_cases)
qed

text \<open>
  C7, as it is stated, fails: the token below carries the keyed hash of its signing
  string under the secret and claims without a guest name. The extraction and the
  validation both succeed, and the identity returned, with no error, is the empty string.
\<close>

theorem authenticate_empty_identity_counterexample:
  "snd (extractTokenFromRequest
          (query_request ''HS256.anon.s256-your-secret-key-change-in-productionHS256anon'')) = None \<and>
   validateToken (table_library [(''anon'', claims_of '''' None None)]) 0
     (fst (extractTokenFromRequest
          (query_request ''HS256.anon.s256-your-secret-key-change-in-productionHS256anon''))) =
     Inr (claims_of '''' None None) \<and>
   authenticateWebSocket (table_library [(''anon'', claims_of '''' None None)]) 0
     (query_request ''HS256.anon.s256-your-secret-key-change-in-productionHS256anon'') = ('''', None) \<and>
   \<not> (fst (authenticateWebSocket (table_library [(''anon'', claims_of '''' None None)]) 0
          (query_request ''HS256.anon.s256-your-secret-key-change-in-productionHS256anon'')) \<noteq> '''' \<and>
      snd (authenticateWebSocket (table_library [(''anon'', claims_of '''' None None)]) 0
          (query_request ''HS256.anon.s256-your-secret-key-change-in-productionHS256anon'')) = None)"
proof -
  let ?L = "table_library [(''anon'', claims_of '''' None None)]"
  let ?s = "''HS256.anon.s256-your-secret-key-change-in-productionHS256anon''"
  have x: "extractTokenFromRequest (query_request ?s) = (?s, None)"
    by (rule extract_query_request) simp
  have v: "validateToken ?L 0 ?s = Inr (claims_of '''' None None)"
    by (simp add: validateToken_def ParseWithClaims_def ParseUnverified_def table_library_def
        GetSigningMethod_def keyFunc_def Verify_def Validate_def claims_of_def jwtSecret_def)
  have a: "authenticateWebSocket ?L 0 (query_request ?s) = ('''', None)"
    by (simp add: authenticate_cases x v) (simp add: claims_of_def)
  from x v a show ?thesis by simp
qed

text \<open>
  C10. A request whose method is neither GET nor POST is answered with status 405 and
  the error body, and with no token; a GET or a POST is never answered so.
\<close>

theorem handleGetToken_method_gate:
  "(Method r \<noteq> ''GET'' \<and> Method r \<noteq> ''POST'' \<longrightarrow>
      handleGetToken L rnd now1 now2 r =
        \<lparr>status = 405, contentType = ''application/json'',
         body = ErrorBody ''Method not allowed''\<rparr>) \<and>
   (Method r = ''GET'' \<or> Method r = ''POST'' \<longrightarrow>
      status (handleGetToken L rnd now1 now2 r) \<noteq> 405 \<and>
      body (handleGetToken L rnd now1 now2 r) \<noteq> ErrorBody ''Method not allowed'')"
  by (auto simp add: handleGetToken_def Let_def split: prod.splits option.splits)

theorem handleGetToken_method_gate_witness:
  "Method ((header_request ''x'')\<lparr>Method := ''DELETE''\<rparr>) \<noteq> ''GET'' \<and>
   Method ((header_request ''x'')\<lparr>Method := ''DELETE''\<rparr>) \<noteq> ''POST'' \<and>
   handleGetToken (table_library []) ''1a2b'' 0 5 ((header_request ''x'')\<lparr>Method := ''DELETE''\<rparr>) =
     \<lparr>status = 405, contentType = ''application/json'',
      body = ErrorBody ''Method not allowed''\<rparr> \<and>
   Method ((header_request ''x'')\<lparr>Method := ''POST''\<rparr>) = ''POST'' \<and>
   status (handleGetToken (table_library []) ''1a2b'' 0 5
             ((header_request ''x'')\<lparr>Method := ''POST''\<rparr>)) \<noteq> 405 \<and>
   body (handleGetToken (table_library []) ''1a2b'' 0 5
             ((header_request ''x'')\<lparr>Method := ''POST''\<rparr>)) \<noteq> ErrorBody ''Method not allowed''"
  using handleGetToken_method_gate
      [of "(header_request ''x'')\<lparr>Method := ''DELETE''\<rparr>" "table_library []" "''1a2b''" 0 5]
    handleGetToken_method_gate
      [of "(header_request ''x'')\<lparr>Method := ''POST''\<rparr>" "table_library []" "''1a2b''" 0 5]
  by (simp add: header_request_def)


end
